theory Spec2Isabelle
  imports Complex_Main "HOL-Library.Sublist"
begin

section \<open>Python helpers shared by both tools\<close>

text \<open>
  Python list indexing \<^verbatim>\<open>xs[i]\<close>: a negative index counts from the end, and an index
  outside \<^verbatim>\<open>-len(xs) .. len(xs)-1\<close> raises IndexError (here \<open>None\<close>).
\<close>

definition py_index :: "'a list \<Rightarrow> int \<Rightarrow> 'a option" where
  "py_index xs i =
     (if 0 \<le> i \<and> i < int (length xs) then Some (xs ! nat i)
      else if i < 0 \<and> - int (length xs) \<le> i then Some (xs ! nat (int (length xs) + i))
      else None)"

text \<open>
  Python slicing \<^verbatim>\<open>xs[i:]\<close>: a negative start counts from the end, and the start is
  clamped to \<^verbatim>\<open>0 .. len(xs)\<close>; slicing never raises.
\<close>

definition py_slice_from :: "'a list \<Rightarrow> int \<Rightarrow> 'a list" where
  "py_slice_from xs i =
     (let n = int (length xs); j = (if i < 0 then max (n + i) 0 else min i n)
      in drop (nat j) xs)"

text \<open>Python \<^verbatim>\<open>s.startswith(p)\<close>, character by character.\<close>

fun startswith :: "string \<Rightarrow> string \<Rightarrow> bool" where
  "startswith s [] = True"
| "startswith [] (p # ps) = False"
| "startswith (c # s) (p # ps) = (c = p \<and> startswith s ps)"


section \<open>Planning-document phase runner (phased-implementation.py)\<close>

subsection \<open>Data\<close>

text \<open>A phase as STATUS_SCHEMA describes it: two text fields.\<close>

record phase =
  description :: string
  status :: string

text \<open>The structured output of \<^verbatim>\<open>get_phase_status\<close>.\<close>

record status_report =
  phases :: "phase list"
  nextPhaseIndex :: int

text \<open>
  A call of \<^verbatim>\<open>clauded\<close> either raises (non-zero exit of the assistant, output that
  is not the expected envelope) or returns the structured output.
\<close>

datatype 'a call = Raises | Returns 'a

text \<open>
  What the outside world answers during one iteration of the main loop: the elapsed
  wall-clock time read at the top of the iteration, the answer of \<^verbatim>\<open>execute_phase\<close>
  (the \<^verbatim>\<open>success\<close> field of the returned mapping, \<open>None\<close> when the key is
  absent), and the answer of the status query that follows a successful execution. An answer
  the iteration does not ask for is ignored.
\<close>

record round =
  elapsed :: real
  exec_result :: "bool option call"
  status_result :: "status_report call"

text \<open>The external calls and waits the runner issues, in order.\<close>

datatype event =
    ExecutePhase int string
  | GetPhaseStatus
  | Sleep nat

text \<open>
  How the run ends: the loop condition fails (\<^verbatim>\<open>next_phase_idx == -1\<close>), the time
  check breaks out of the loop, \<^verbatim>\<open>sys.exit(1)\<close> is called, or an IndexError of
  \<^verbatim>\<open>phases[next_phase_idx]\<close> escapes \<^verbatim>\<open>main\<close>.
\<close>

datatype outcome =
    AllComplete
  | TimeLimitReached
  | ExitFailure
  | UncaughtIndexError

text \<open>
  The exit code of the process. After the time-limit break the final summary only
  prints, and the process ends normally. A called \<^verbatim>\<open>sys.exit(1)\<close> and an uncaught
  exception both end the process with code 1. For \<open>AllComplete\<close> the code is that of a
  run whose closing actions (moving the document, the completion sound) raise nothing.
\<close>

fun exit_code :: "outcome \<Rightarrow> int" where
  "exit_code AllComplete = 0"
| "exit_code TimeLimitReached = 0"
| "exit_code ExitFailure = 1"
| "exit_code UncaughtIndexError = 1"

subsection \<open>The main loop\<close>

text \<open>
  \<^verbatim>\<open>while next_phase_idx != -1:\<close> of \<^verbatim>\<open>main\<close>, lines 321 to 375. The arguments are
  the time budget in seconds, the \<^verbatim>\<open>phases\<close> and \<^verbatim>\<open>next_phase_idx\<close> of the latest
  report, and the answers of the world for the iterations to come. The result is the list
  of external calls issued and the way the run ends; \<open>None\<close> when the loop is still
  running after the last supplied round.
\<close>

fun main_loop :: "int \<Rightarrow> phase list \<Rightarrow> int \<Rightarrow> round list \<Rightarrow> (event list \<times> outcome) option" where
  "main_loop budget phs idx [] = (if idx = -1 then Some ([], AllComplete) else None)"
| "main_loop budget phs idx (r # rest) =
     (if idx = -1 then Some ([], AllComplete)
      else if real_of_int budget \<le> elapsed r then Some ([], TimeLimitReached)
      else (case py_index phs idx of
        None \<Rightarrow> Some ([], UncaughtIndexError)
      | Some current_phase \<Rightarrow>
          (case exec_result r of
            Raises \<Rightarrow> Some ([ExecutePhase idx (description current_phase)], ExitFailure)
          | Returns result \<Rightarrow>
              if \<not> (case result of None \<Rightarrow> False | Some success \<Rightarrow> success)
              then Some ([ExecutePhase idx (description current_phase)], ExitFailure)
              else (case status_result r of
                Raises \<Rightarrow>
                  Some ([ExecutePhase idx (description current_phase), GetPhaseStatus],
                        ExitFailure)
              | Returns st \<Rightarrow>
                  (case main_loop budget (phases st) (nextPhaseIndex st) rest of
                    None \<Rightarrow> None
                  | Some (evs, out) \<Rightarrow>
                      Some (([ExecutePhase idx (description current_phase), GetPhaseStatus]
                             @ (if nextPhaseIndex st \<noteq> -1 then [Sleep 2] else []))
                             @ evs, out))))))"

text \<open>
  \<^verbatim>\<open>main\<close> from the first status query (lines 286 to 314) on: a failed query exits with
  code 1, a report with \<^verbatim>\<open>nextPhaseIndex == -1\<close> exits at once, the announcement of the
  first step reads \<^verbatim>\<open>phases[next_phase_idx]\<close>, and then the loop runs.
\<close>

definition main_run :: "int \<Rightarrow> status_report call \<Rightarrow> round list \<Rightarrow> (event list \<times> outcome) option" where
  "main_run budget first rounds =
     (case first of
        Raises \<Rightarrow> Some ([GetPhaseStatus], ExitFailure)
      | Returns st \<Rightarrow>
          if nextPhaseIndex st = -1 then Some ([GetPhaseStatus], AllComplete)
          else (case py_index (phases st) (nextPhaseIndex st) of
            None \<Rightarrow> Some ([GetPhaseStatus], UncaughtIndexError)
          | Some p \<Rightarrow>
              (case main_loop budget (phases st) (nextPhaseIndex st) rounds of
                None \<Rightarrow> None
              | Some (evs, out) \<Rightarrow> Some (GetPhaseStatus # evs, out))))"


section \<open>Voice watcher\<close>

subsection \<open>Message history of the parser (claude\_parser.py)\<close>

record claude_parser =
  context_size :: int
  message_history :: "string list"

text \<open>\<^verbatim>\<open>ClaudeParser.__init__\<close>; the default capacity is 10.\<close>

definition new_parser :: "int \<Rightarrow> claude_parser" where
  "new_parser n = \<lparr>context_size = n, message_history = []\<rparr>"

definition default_parser :: claude_parser where
  "default_parser = new_parser 10"

text \<open>\<^verbatim>\<open>ClaudeParser.add_message\<close>: append, then keep the last \<^verbatim>\<open>context_size\<close>.\<close>

definition add_message :: "claude_parser \<Rightarrow> string \<Rightarrow> claude_parser" where
  "add_message p message =
     (let h = message_history p @ [message]
      in if int (length h) > context_size p
         then p\<lparr>message_history := py_slice_from h (- context_size p)\<rparr>
         else p\<lparr>message_history := h\<rparr>)"

text \<open>Adding a sequence of messages one after the other.\<close>

definition add_messages :: "claude_parser \<Rightarrow> string list \<Rightarrow> claude_parser" where
  "add_messages p ms = foldl add_message p ms"


subsection \<open>JSON values as Python sees them\<close>

text \<open>
  What \<^verbatim>\<open>json.loads\<close> returns: \<^verbatim>\<open>None\<close>, a bool, an integer, a string, a list, or a
  dict (its items in insertion order, keys distinct). Numbers with a fraction are left out.
\<close>

datatype json =
    JNull
  | JBool bool
  | JInt int
  | JStr string
  | JList "json list"
  | JDict "(string \<times> json) list"

text \<open>Python truth value (\<^verbatim>\<open>if x:\<close>, \<^verbatim>\<open>not x\<close>).\<close>

fun truthy :: "json \<Rightarrow> bool" where
  "truthy JNull = False"
| "truthy (JBool b) = b"
| "truthy (JInt n) = (n \<noteq> 0)"
| "truthy (JStr s) = (s \<noteq> [])"
| "truthy (JList xs) = (xs \<noteq> [])"
| "truthy (JDict kvs) = (kvs \<noteq> [])"

text \<open>The exceptions that occur in the watcher.\<close>

datatype exn =
    AttributeError
  | TypeError
  | KeyError
  | IndexError
  | ValueError
  | RuntimeError
  | CalledProcessError
  | OSError

text \<open>\<^verbatim>\<open>x.get(key, default)\<close>: only a dict has \<^verbatim>\<open>get\<close>.\<close>

fun py_get :: "json \<Rightarrow> string \<Rightarrow> json \<Rightarrow> exn + json" where
  "py_get (JDict kvs) k d = Inr (case map_of kvs k of None \<Rightarrow> d | Some v \<Rightarrow> v)"
| "py_get x k d = Inl AttributeError"

text \<open>\<^verbatim>\<open>for item in x\<close>: a list gives its elements, a string its characters, a dict its
  keys; anything else is not iterable.\<close>

fun py_iter :: "json \<Rightarrow> exn + json list" where
  "py_iter (JList xs) = Inr xs"
| "py_iter (JStr s) = Inr (map (\<lambda>c. JStr [c]) s)"
| "py_iter (JDict kvs) = Inr (map (\<lambda>kv. JStr (fst kv)) kvs)"
| "py_iter x = Inl TypeError"

text \<open>\<^verbatim>\<open>sep.join(xs)\<close>.\<close>

fun join :: "string \<Rightarrow> string list \<Rightarrow> string" where
  "join sep [] = []"
| "join sep [x] = x"
| "join sep (x # y # ys) = x @ sep @ join sep (y # ys)"

subsection \<open>Domain models (domain/models.py)\<close>

record command =
  type :: json
  args :: json

record parsed_input =
  session_prompt :: json
  commands :: "command list"

text \<open>One element of the list comprehension of \<^verbatim>\<open>ParsedInput.from_dict\<close>.\<close>

definition command_of :: "json \<Rightarrow> exn + command" where
  "command_of cmd =
     (case py_get cmd ''type'' (JStr []) of
        Inl e \<Rightarrow> Inl e
      | Inr t \<Rightarrow>
          (case py_get cmd ''args'' (JDict []) of
             Inl e \<Rightarrow> Inl e
           | Inr a \<Rightarrow> Inr \<lparr>type = t, args = a\<rparr>))"

fun commands_of :: "json list \<Rightarrow> exn + command list" where
  "commands_of [] = Inr []"
| "commands_of (c # cs) =
     (case command_of c of
        Inl e \<Rightarrow> Inl e
      | Inr x \<Rightarrow> (case commands_of cs of Inl e \<Rightarrow> Inl e | Inr xs \<Rightarrow> Inr (x # xs)))"

text \<open>\<^verbatim>\<open>ParsedInput.from_dict\<close>: the commands first, then the session prompt.\<close>

definition from_dict :: "json \<Rightarrow> exn + parsed_input" where
  "from_dict data =
     (case py_get data ''commands'' (JList []) of
        Inl e \<Rightarrow> Inl e
      | Inr cs \<Rightarrow>
          (case py_iter cs of
             Inl e \<Rightarrow> Inl e
           | Inr items \<Rightarrow>
               (case commands_of items of
                  Inl e \<Rightarrow> Inl e
                | Inr cmds \<Rightarrow>
                    (case py_get data ''sessionPrompt'' JNull of
                       Inl e \<Rightarrow> Inl e
                     | Inr sp \<Rightarrow> Inr \<lparr>session_prompt = sp, commands = cmds\<rparr>))))"

text \<open>
  PARSE_SCHEMA, the schema handed to the assistant: an object with the required fields
  \<^verbatim>\<open>sessionPrompt\<close> (string or null) and \<^verbatim>\<open>commands\<close> (an array of objects with the
  required fields \<^verbatim>\<open>type\<close>, a string, and \<^verbatim>\<open>args\<close>, an object).
\<close>

fun is_string :: "json \<Rightarrow> bool" where
  "is_string (JStr s) = True"
| "is_string x = False"

fun is_object :: "json \<Rightarrow> bool" where
  "is_object (JDict kvs) = True"
| "is_object x = False"

fun command_schema :: "json \<Rightarrow> bool" where
  "command_schema (JDict kvs) =
     ((case map_of kvs ''type'' of None \<Rightarrow> False | Some t \<Rightarrow> is_string t)
      \<and> (case map_of kvs ''args'' of None \<Rightarrow> False | Some a \<Rightarrow> is_object a))"
| "command_schema x = False"

fun PARSE_SCHEMA :: "json \<Rightarrow> bool" where
  "PARSE_SCHEMA (JDict kvs) =
     ((case map_of kvs ''sessionPrompt'' of
         None \<Rightarrow> False
       | Some sp \<Rightarrow> is_string sp \<or> sp = JNull)
      \<and> (case map_of kvs ''commands'' of
           None \<Rightarrow> False
         | Some (JList cs) \<Rightarrow> list_all command_schema cs
         | Some other \<Rightarrow> False))"
| "PARSE_SCHEMA x = False"

subsection \<open>The outside world of the watcher\<close>

text \<open>
  What the watcher does to the outside world, in order: reading the watched file, calling the
  assistant (the two values filled into PARSE_PROMPT: the context lines and the latest
  message), copying a text to the clipboard, the paste-and-return keystrokes sent to the
  terminal, \<^verbatim>\<open>open -a app\<close>, \<^verbatim>\<open>open [-a app] path\<close>, a key code (with or without the
  command key held), and \<^verbatim>\<open>time.sleep\<close>.
\<close>

datatype action =
    ReadFile
  | ClaudeCall string string
  | Pbcopy string
  | PasteAndReturn
  | OpenApp string
  | OpenPath "string option" string
  | KeyCode string bool
  | TimeSleep real

text \<open>
  The run of the assistant inside \<^verbatim>\<open>_call_claude\<close>: \<^verbatim>\<open>subprocess.run\<close> raises
  TimeoutExpired after 30 seconds, raises something else, or completes with a return code
  and a standard output; the output is given as \<^verbatim>\<open>json.loads\<close> reads it, \<open>None\<close> when
  that raises JSONDecodeError.
\<close>

datatype cli_run =
    TimeoutExpired
  | RunRaised
  | Completed int "json option"

text \<open>
  \<^verbatim>\<open>subprocess.run(..., check=True)\<close> of an OS command: exit code zero, a non-zero exit
  code (CalledProcessError), or the command could not be started (OSError).
\<close>

datatype proc_result = ExitZero | ExitNonZero | SpawnFailed

text \<open>A path as pathlib holds it: whether it is rooted, and its components.\<close>

record ppath =
  absolute :: bool
  parts :: "string list"

text \<open>
  The world during one tick of the watcher. The watched file: \<^verbatim>\<open>exists()\<close> in
  \<^verbatim>\<open>watch\<close>, \<^verbatim>\<open>exists()\<close> in \<^verbatim>\<open>read_file\<close>, and \<^verbatim>\<open>read_text()\<close> (\<open>None\<close> when it
  raises). The assistant's answer to a prompt. For the executor: the home directory that
  \<^verbatim>\<open>os.path.expanduser\<close> finds for a leading \<^verbatim>\<open>~\<close> or \<^verbatim>\<open>~user\<close> component (\<open>None\<close>
  when it finds none), the matches of \<^verbatim>\<open>parent.glob(pattern)\<close> in the order the OS lists
  them, \<^verbatim>\<open>exists()\<close> of a path, and the result of an OS command, which may depend on the
  actions done before it.
\<close>

record world =
  file_exists :: bool
  file_exists_on_read :: bool
  read_text :: "string option"
  claude :: "string \<Rightarrow> string \<Rightarrow> cli_run"
  home_of :: "string \<Rightarrow> string option"
  glob :: "ppath \<Rightarrow> string \<Rightarrow> ppath list"
  path_exists :: "ppath \<Rightarrow> bool"
  run :: "action list \<Rightarrow> action \<Rightarrow> proc_result"

text \<open>
  One OS command with \<^verbatim>\<open>check=True\<close>: the action is recorded, and the exception it
  raises, if any, is returned.
\<close>

definition run_checked :: "world \<Rightarrow> action list \<Rightarrow> action \<Rightarrow> action list \<times> exn option" where
  "run_checked w acts a =
     (acts @ [a],
      case run w acts a of
        ExitZero \<Rightarrow> None
      | ExitNonZero \<Rightarrow> Some CalledProcessError
      | SpawnFailed \<Rightarrow> Some OSError)"


subsection \<open>The parser (claude\_parser.py)\<close>

text \<open>
  \<^verbatim>\<open>output[-1]['structured_output']\<close> on the decoded output. Only a non-empty list whose
  last element is a dict with that key gives a value; everything else raises.
\<close>

fun structured_output :: "json \<Rightarrow> exn + json" where
  "structured_output (JList xs) =
     (case py_index xs (-1) of
        None \<Rightarrow> Inl IndexError
      | Some (JDict kvs) \<Rightarrow>
          (case map_of kvs ''structured_output'' of None \<Rightarrow> Inl KeyError | Some v \<Rightarrow> Inr v)
      | Some other \<Rightarrow> Inl TypeError)"
| "structured_output (JDict kvs) = Inl KeyError"
| "structured_output (JStr s) = (if s = [] then Inl IndexError else Inl TypeError)"
| "structured_output x = Inl TypeError"

text \<open>
  \<^verbatim>\<open>ClaudeParser._call_claude\<close>, given how the run of the assistant went. Every failure
  returns \<^verbatim>\<open>None\<close>, here \<open>JNull\<close>.
\<close>

fun call_claude :: "cli_run \<Rightarrow> json" where
  "call_claude TimeoutExpired = JNull"
| "call_claude RunRaised = JNull"
| "call_claude (Completed returncode stdout) =
     (if returncode \<noteq> 0 then JNull
      else (case stdout of
        None \<Rightarrow> JNull
      | Some output \<Rightarrow> (case structured_output output of Inl e \<Rightarrow> JNull | Inr v \<Rightarrow> v)))"

text \<open>The context lines of the prompt: every message of the history but the last.\<close>

definition context_messages :: "string list \<Rightarrow> string" where
  "context_messages history =
     (if length history > 1
      then join [CHR 0x0A] (map (\<lambda>msg. ''- '' @ msg) (butlast history))
      else ''(No prior context)'')"

text \<open>
  \<^verbatim>\<open>ClaudeParser.parse\<close>: the actions done so far with the call of the assistant added,
  the result (\<open>None\<close> for Python's \<^verbatim>\<open>None\<close>), and the parser afterwards.
\<close>

definition parse ::
  "world \<Rightarrow> action list \<Rightarrow> claude_parser \<Rightarrow> string
     \<Rightarrow> action list \<times> parsed_input option \<times> claude_parser" where
  "parse w acts p latest_message =
     (let p' = add_message p latest_message;
          ctx = context_messages (message_history p');
          result = call_claude (claude w ctx latest_message)
      in (acts @ [ClaudeCall ctx latest_message],
          (if truthy result
           then (case from_dict result of Inl e \<Rightarrow> None | Inr parsed \<Rightarrow> Some parsed)
           else None),
          p'))"

subsection \<open>The command executor (command\_executor.py)\<close>

text \<open>Splitting a string at every slash.\<close>

fun split_slash :: "string \<Rightarrow> string list" where
  "split_slash [] = [[]]"
| "split_slash (c # cs) =
     (if c = CHR ''/'' then [] # split_slash cs
      else (case split_slash cs of [] \<Rightarrow> [[c]] | x # xs \<Rightarrow> (c # x) # xs))"

text \<open>
  \<^verbatim>\<open>Path(s)\<close> on a POSIX system: empty components and \<^verbatim>\<open>.\<close> components vanish. (A
  path starting with exactly two slashes is treated like one starting with one.)
\<close>

definition Path :: "string \<Rightarrow> ppath" where
  "Path s =
     \<lparr>absolute = (take 1 s = ''/''),
      parts = filter (\<lambda>c. c \<noteq> [] \<and> c \<noteq> ''.'') (split_slash s)\<rparr>"

definition name :: "ppath \<Rightarrow> string" where
  "name p = (if parts p = [] then [] else last (parts p))"

definition parent :: "ppath \<Rightarrow> ppath" where
  "parent p = p\<lparr>parts := butlast (parts p)\<rparr>"

text \<open>\<^verbatim>\<open>str(p)\<close>.\<close>

definition path_str :: "ppath \<Rightarrow> string" where
  "path_str p =
     (if absolute p then ''/'' @ join ''/'' (parts p)
      else if parts p = [] then ''.''
      else join ''/'' (parts p))"

text \<open>
  \<^verbatim>\<open>Path.expanduser\<close>: a relative path whose first component starts with \<^verbatim>\<open>~\<close> has that
  component replaced by the home directory; RuntimeError when none is found.
\<close>

definition expanduser :: "world \<Rightarrow> ppath \<Rightarrow> exn + ppath" where
  "expanduser w p =
     (if \<not> absolute p \<and> parts p \<noteq> [] \<and> take 1 (hd (parts p)) = ''~''
      then (case home_of w (hd (parts p)) of
              None \<Rightarrow> Inl RuntimeError
            | Some homedir \<Rightarrow>
                Inr \<lparr>absolute = absolute (Path homedir),
                     parts = parts (Path homedir) @ tl (parts p)\<rparr>)
      else Inr p)"

text \<open>
  The handlers return the actions done so far and either the handler's boolean or the
  exception that leaves it.
\<close>

definition open_app :: "world \<Rightarrow> action list \<Rightarrow> json \<Rightarrow> action list \<times> (exn + bool)" where
  "open_app w acts a =
     (case py_get a ''app'' JNull of
        Inl e \<Rightarrow> (acts, Inl e)
      | Inr app \<Rightarrow>
          if \<not> truthy app then (acts, Inr False)
          else (case app of
            JStr s \<Rightarrow>
              (case run_checked w acts (OpenApp s) of
                 (acts', None) \<Rightarrow> (acts', Inr True)
               | (acts', Some e) \<Rightarrow> (acts', Inl e))
          | other \<Rightarrow> (acts, Inl TypeError)))"

text \<open>
  The last step of \<^verbatim>\<open>_open_file\<close>: \<^verbatim>\<open>open -a app path\<close> when \<^verbatim>\<open>app\<close> is true,
  \<^verbatim>\<open>open path\<close> otherwise.
\<close>

definition open_resolved :: "world \<Rightarrow> action list \<Rightarrow> json \<Rightarrow> ppath \<Rightarrow> action list \<times> (exn + bool)" where
  "open_resolved w acts app target =
     (if truthy app
      then (case app of
              JStr s \<Rightarrow>
                (case run_checked w acts (OpenPath (Some s) (path_str target)) of
                   (acts', None) \<Rightarrow> (acts', Inr True)
                 | (acts', Some e) \<Rightarrow> (acts', Inl e))
            | other \<Rightarrow> (acts, Inl TypeError))
      else (case run_checked w acts (OpenPath None (path_str target)) of
              (acts', None) \<Rightarrow> (acts', Inr True)
            | (acts', Some e) \<Rightarrow> (acts', Inl e)))"

text \<open>
  \<^verbatim>\<open>CommandExecutor._open_file\<close>. A path that is not a string makes \<^verbatim>\<open>Path(path)\<close>
  raise TypeError. When the path text contains a star, only the last component of the
  expanded path is used as the pattern, matched inside the parent taken as it is written;
  \<^verbatim>\<open>glob\<close> raises ValueError on an empty pattern.
\<close>

definition open_file :: "world \<Rightarrow> action list \<Rightarrow> json \<Rightarrow> action list \<times> (exn + bool)" where
  "open_file w acts a =
     (case py_get a ''path'' JNull of
        Inl e \<Rightarrow> (acts, Inl e)
      | Inr path \<Rightarrow>
          (case py_get a ''app'' JNull of
             Inl e \<Rightarrow> (acts, Inl e)
           | Inr app \<Rightarrow>
               if \<not> truthy path then (acts, Inr False)
               else (case path of
                 JStr s \<Rightarrow>
                   (case expanduser w (Path s) of
                      Inl e \<Rightarrow> (acts, Inl e)
                    | Inr expanded_path \<Rightarrow>
                        if CHR ''*'' \<in> set s
                        then (if name expanded_path = [] then (acts, Inl ValueError)
                              else (case glob w (parent expanded_path) (name expanded_path) of
                                [] \<Rightarrow> (acts, Inr False)
                              | m # ms \<Rightarrow>
                                  if \<not> path_exists w m then (acts, Inr False)
                                  else open_resolved w acts app m))
                        else if \<not> path_exists w expanded_path then (acts, Inr False)
                        else open_resolved w acts app expanded_path)
               | other \<Rightarrow> (acts, Inl TypeError))))"

text \<open>\<^verbatim>\<open>range(amount)\<close>: the number of rounds of the loop.\<close>

fun range_count :: "json \<Rightarrow> exn + nat" where
  "range_count (JInt n) = Inr (nat n)"
| "range_count (JBool b) = Inr (if b then 1 else 0)"
| "range_count x = Inl TypeError"

text \<open>The loop of \<^verbatim>\<open>_scroll\<close>: one plain key event per round, until one raises.\<close>

fun press_keys :: "world \<Rightarrow> action list \<Rightarrow> string \<Rightarrow> nat \<Rightarrow> action list \<times> (exn + bool)" where
  "press_keys w acts key_code 0 = (acts, Inr True)"
| "press_keys w acts key_code (Suc n) =
     (case run_checked w acts (KeyCode key_code False) of
        (acts', Some e) \<Rightarrow> (acts', Inl e)
      | (acts', None) \<Rightarrow> press_keys w acts' key_code n)"

definition scroll_by :: "world \<Rightarrow> action list \<Rightarrow> string \<Rightarrow> json \<Rightarrow> action list \<times> (exn + bool)" where
  "scroll_by w acts key_code amount =
     (case range_count amount of
        Inl e \<Rightarrow> (acts, Inl e)
      | Inr n \<Rightarrow> press_keys w acts key_code n)"

definition scroll :: "world \<Rightarrow> action list \<Rightarrow> json \<Rightarrow> action list \<times> (exn + bool)" where
  "scroll w acts a =
     (case py_get a ''direction'' (JStr ''down'') of
        Inl e \<Rightarrow> (acts, Inl e)
      | Inr direction \<Rightarrow>
          (case py_get a ''amount'' (JInt 5) of
             Inl e \<Rightarrow> (acts, Inl e)
           | Inr amount \<Rightarrow>
               if direction = JStr ''up'' then scroll_by w acts ''126'' amount
               else if direction = JStr ''down'' then scroll_by w acts ''125'' amount
               else if direction = JStr ''top''
               then (case run_checked w acts (KeyCode ''126'' True) of
                       (acts', None) \<Rightarrow> (acts', Inr True)
                     | (acts', Some e) \<Rightarrow> (acts', Inl e))
               else if direction = JStr ''bottom''
               then (case run_checked w acts (KeyCode ''125'' True) of
                       (acts', None) \<Rightarrow> (acts', Inr True)
                     | (acts', Some e) \<Rightarrow> (acts', Inl e))
               else (acts, Inr False)))"

text \<open>
  \<^verbatim>\<open>CommandExecutor.execute\<close>. The lookup \<^verbatim>\<open>handlers.get(command.type)\<close> is outside
  the \<^verbatim>\<open>try\<close>: a list or a dict as the type is unhashable and the TypeError leaves
  \<^verbatim>\<open>execute\<close>. An exception of the handler becomes \<^verbatim>\<open>False\<close>.
\<close>

definition caught :: "action list \<times> (exn + bool) \<Rightarrow> action list \<times> (exn + bool)" where
  "caught r = (fst r, Inr (case snd r of Inl e \<Rightarrow> False | Inr b \<Rightarrow> b))"

definition execute :: "world \<Rightarrow> action list \<Rightarrow> command \<Rightarrow> action list \<times> (exn + bool)" where
  "execute w acts cmd =
     (case type cmd of
        JList xs \<Rightarrow> (acts, Inl TypeError)
      | JDict kvs \<Rightarrow> (acts, Inl TypeError)
      | JStr t \<Rightarrow>
          if t = ''openApp'' then caught (open_app w acts (args cmd))
          else if t = ''openFile'' then caught (open_file w acts (args cmd))
          else if t = ''scroll'' then caught (scroll w acts (args cmd))
          else (acts, Inr False)
      | other \<Rightarrow> (acts, Inr False))"

subsection \<open>The file watcher (file\_watcher.py)\<close>

record file_watcher =
  last_content :: string
  parser :: claude_parser

text \<open>\<^verbatim>\<open>FileWatcher.__init__\<close>.\<close>

definition new_watcher :: file_watcher where
  "new_watcher = \<lparr>last_content = [], parser = default_parser\<rparr>"

definition read_file :: "world \<Rightarrow> string option" where
  "read_file w = (if file_exists_on_read w then read_text w else None)"

definition extract_new_content :: "file_watcher \<Rightarrow> string \<Rightarrow> string" where
  "extract_new_content fw current_content =
     (if startswith current_content (last_content fw)
      then py_slice_from current_content (int (length (last_content fw)))
      else current_content)"

text \<open>
  \<^verbatim>\<open>FileWatcher.send_to_terminal\<close>: only CalledProcessError is caught. A text that is not
  a string has no \<^verbatim>\<open>encode\<close>.
\<close>

definition send_to_terminal :: "world \<Rightarrow> action list \<Rightarrow> json \<Rightarrow> action list \<times> exn option" where
  "send_to_terminal w acts text =
     (case text of
        JStr s \<Rightarrow>
          (case run_checked w acts (Pbcopy s) of
             (acts', Some e) \<Rightarrow> (acts', if e = CalledProcessError then None else Some e)
           | (acts', None) \<Rightarrow>
               (case run_checked w acts' PasteAndReturn of
                  (acts'', Some e) \<Rightarrow> (acts'', if e = CalledProcessError then None else Some e)
                | (acts'', None) \<Rightarrow> (acts'', None)))
      | other \<Rightarrow> (acts, Some AttributeError))"

text \<open>The loop over the commands in \<^verbatim>\<open>process_input\<close>.\<close>

fun execute_all :: "world \<Rightarrow> action list \<Rightarrow> command list \<Rightarrow> action list \<times> exn option" where
  "execute_all w acts [] = (acts, None)"
| "execute_all w acts (cmd # cmds) =
     (case execute w acts cmd of
        (acts', Inl e) \<Rightarrow> (acts', Some e)
      | (acts', Inr b) \<Rightarrow> execute_all w acts' cmds)"

text \<open>
  \<^verbatim>\<open>FileWatcher.process_input\<close>: the actions, the exception that leaves it (if any), and
  the watcher afterwards.
\<close>

definition process_input ::
  "world \<Rightarrow> action list \<Rightarrow> file_watcher \<Rightarrow> string
     \<Rightarrow> action list \<times> exn option \<times> file_watcher" where
  "process_input w acts fw text =
     (case parse w acts (parser fw) text of
        (acts1, parsed, p') \<Rightarrow>
          (case parsed of
             None \<Rightarrow>
               (case send_to_terminal w acts1 (JStr text) of
                  (acts2, e) \<Rightarrow> (acts2, e, fw\<lparr>parser := p'\<rparr>))
           | Some pin \<Rightarrow>
               (case execute_all w acts1 (commands pin) of
                  (acts2, Some e) \<Rightarrow> (acts2, Some e, fw\<lparr>parser := p'\<rparr>)
                | (acts2, None) \<Rightarrow>
                    if truthy (session_prompt pin)
                    then (case send_to_terminal w acts2 (session_prompt pin) of
                            (acts3, e) \<Rightarrow> (acts3, e, fw\<lparr>parser := p'\<rparr>))
                    else (acts2, None, fw\<lparr>parser := p'\<rparr>))))"

text \<open>
  One round of the loop of \<^verbatim>\<open>FileWatcher.watch\<close>: the actions of the round, and the
  watcher afterwards or the exception that ends the loop.
\<close>

definition watch_tick :: "real \<Rightarrow> world \<Rightarrow> file_watcher \<Rightarrow> action list \<times> (exn + file_watcher)" where
  "watch_tick interval w fw =
     (if \<not> file_exists w then ([TimeSleep interval], Inr fw)
      else (case read_file w of
        None \<Rightarrow> ([ReadFile], Inr fw)
      | Some content \<Rightarrow>
          if content \<noteq> last_content fw \<and> content \<noteq> []
          then (case process_input w [ReadFile] fw (extract_new_content fw content) of
                  (acts, Some e, fw') \<Rightarrow> (acts, Inl e)
                | (acts, None, fw') \<Rightarrow>
                    (acts @ [TimeSleep interval], Inr (fw'\<lparr>last_content := content\<rparr>)))
          else ([ReadFile, TimeSleep interval], Inr fw)))"

text \<open>
  \<^verbatim>\<open>FileWatcher.watch\<close> for as many rounds as worlds are given (the loop itself runs
  until the operator interrupts it).
\<close>

fun watch :: "real \<Rightarrow> world list \<Rightarrow> file_watcher \<Rightarrow> action list \<times> (exn + file_watcher)" where
  "watch interval [] fw = ([], Inr fw)"
| "watch interval (w # ws) fw =
     (case watch_tick interval w fw of
        (acts, Inl e) \<Rightarrow> (acts, Inl e)
      | (acts, Inr fw') \<Rightarrow>
          (case watch interval ws fw' of (acts', r) \<Rightarrow> (acts @ acts', r)))"


subsection \<open>Worlds for the examples\<close>

text \<open>
  A world in which the watched file exists but cannot be read, the assistant times out,
  no home directory and no file is found, and every OS command succeeds. The examples
  change single fields of it.
\<close>

definition still_world :: world where
  "still_world =
     \<lparr>file_exists = True, file_exists_on_read = True, read_text = None,
      claude = (\<lambda>ctx msg. TimeoutExpired),
      home_of = (\<lambda>u. None),
      glob = (\<lambda>dir pattern. []),
      path_exists = (\<lambda>p. False),
      run = (\<lambda>acts a. ExitZero)\<rparr>"

text \<open>Matching one path component against a pattern in which a star stands for any text.\<close>

fun wildcard_match :: "string \<Rightarrow> string \<Rightarrow> bool" where
  "wildcard_match [] [] = True"
| "wildcard_match [] (c # cs) = False"
| "wildcard_match (p # ps) [] = (p = CHR ''*'' \<and> wildcard_match ps [])"
| "wildcard_match (p # ps) (c # cs) =
     (if p = CHR ''*'' then wildcard_match ps (c # cs) \<or> wildcard_match (p # ps) cs
      else p = c \<and> wildcard_match ps cs)"

text \<open>
  \<^verbatim>\<open>dir.glob(pattern)\<close> for a one-component pattern over a file system given as the list
  of its paths: the entries of \<open>dir\<close> whose name matches.
\<close>

definition listing_glob :: "ppath list \<Rightarrow> ppath \<Rightarrow> string \<Rightarrow> ppath list" where
  "listing_glob files dir pattern =
     filter (\<lambda>f. parts f \<noteq> [] \<and> parent f = dir \<and> wildcard_match pattern (name f)) files"

text \<open>
  The reading of the specification, for comparison with \<^verbatim>\<open>_open_file\<close>: a wildcard may
  stand in any component of the path, and the matches are the existing paths that match
  component by component.
\<close>

definition spec_glob_anywhere :: "ppath list \<Rightarrow> ppath \<Rightarrow> ppath list" where
  "spec_glob_anywhere files pattern =
     filter (\<lambda>f. absolute f = absolute pattern
                 \<and> list_all2 wildcard_match (parts pattern) (parts f)) files"

text \<open>A home directory with one draft, as in the example of PARSE_PROMPT.\<close>

definition demo_files :: "ppath list" where
  "demo_files =
     [\<lparr>absolute = True, parts = [''Users'', ''me'']\<rparr>,
      \<lparr>absolute = True, parts = [''Users'', ''me'', ''Desktop'']\<rparr>,
      \<lparr>absolute = True, parts = [''Users'', ''me'', ''Desktop'', ''doc-drafts'']\<rparr>,
      \<lparr>absolute = True, parts = [''Users'', ''me'', ''Desktop'', ''doc-drafts'', ''post'']\<rparr>,
      \<lparr>absolute = True,
       parts = [''Users'', ''me'', ''Desktop'', ''doc-drafts'', ''post'', ''blog.md'']\<rparr>]"

definition demo_world :: world where
  "demo_world =
     still_world\<lparr>home_of := (\<lambda>u. if u = ''~'' then Some ''/Users/me'' else None),
                 glob := listing_glob demo_files,
                 path_exists := (\<lambda>p. p \<in> set demo_files)\<rparr>"

text \<open>
  A world whose assistant answers with a payload that has a session prompt but lacks the
  required field \<^verbatim>\<open>commands\<close>.
\<close>

definition lenient_payload :: json where
  "lenient_payload = JDict [(''sessionPrompt'', JStr ''hi'')]"

definition lenient_world :: world where
  "lenient_world =
     still_world\<lparr>claude := (\<lambda>ctx msg.
        Completed 0 (Some (JList [JDict [(''structured_output'', lenient_payload)]])))\<rparr>"


section \<open>Facts about the Python helpers\<close>

lemma py_index_None_iff:
  "py_index xs i = None \<longleftrightarrow> (int (length xs) \<le> i \<or> i < - int (length xs))"
  by (auto simp: py_index_def)

lemma py_index_in_range:
  "0 \<le> i \<Longrightarrow> i < int (length xs) \<Longrightarrow> py_index xs i = Some (xs ! nat i)"
  by (simp add: py_index_def)

lemma py_slice_from_nonneg: "py_slice_from xs (int n) = drop n xs"
  by (auto simp: py_slice_from_def Let_def min_def)

lemma py_slice_from_neg: "0 < k \<Longrightarrow> py_slice_from xs (- int k) = drop (length xs - k) xs"
  by (auto simp: py_slice_from_def Let_def max_def nat_diff_distrib')

lemma startswith_prefix: "startswith s p \<longleftrightarrow> prefix p s"
  by (induction s p rule: startswith.induct) auto


section \<open>Properties of the phase runner\<close>

text \<open>
  C1 (amended). The runner does not check \<^verbatim>\<open>nextPhaseIndex\<close> against the length of
  \<^verbatim>\<open>phases\<close>; it only reads \<^verbatim>\<open>phases[next_phase_idx]\<close>. For a report whose index is
  not -1 and lies outside Python's index range, that is \<^verbatim>\<open>idx >= len(phases)\<close> or
  \<^verbatim>\<open>idx < -len(phases)\<close>, the next iteration of the main loop halts without issuing any
  external call: by the uncaught IndexError, or by the time-limit exit when the budget is
  already used up.
\<close>

theorem main_loop_halts_outside_index_range:
  assumes "idx \<noteq> -1"
    and "int (length phs) \<le> idx \<or> idx < - int (length phs)"
  shows "main_loop budget phs idx (r # rest) =
           Some ([], if real_of_int budget \<le> elapsed r then TimeLimitReached
                     else UncaughtIndexError)"
proof -
  from assms(2) have "py_index phs idx = None"
    by (simp add: py_index_None_iff)
  with assms(1) show ?thesis
    by simp
qed

theorem main_loop_halts_outside_index_range_witness:
  "(5::int) \<noteq> -1
   \<and> int (length [\<lparr>description = ''Add tests'', status = ''completed''\<rparr>,
                   \<lparr>description = ''Fix bug'', status = ''pending''\<rparr>]) \<le> 5
   \<and> main_loop 5400
        [\<lparr>description = ''Add tests'', status = ''completed''\<rparr>,
         \<lparr>description = ''Fix bug'', status = ''pending''\<rparr>] 5
        [\<lparr>elapsed = 0, exec_result = Returns (Some True),
          status_result = Returns \<lparr>phases = [], nextPhaseIndex = -1\<rparr>\<rparr>]
      = Some ([], UncaughtIndexError)
   \<and> exit_code UncaughtIndexError = 1"
  using main_loop_halts_outside_index_range
    [of 5 "[\<lparr>description = ''Add tests'', status = ''completed''\<rparr>,
            \<lparr>description = ''Fix bug'', status = ''pending''\<rparr>]"
        5400
        "\<lparr>elapsed = 0, exec_result = Returns (Some True),
          status_result = Returns \<lparr>phases = [], nextPhaseIndex = -1\<rparr>\<rparr>"
        "[]"]
  by simp

text \<open>
  The same holds for the first report: the announcement of the first step reads
  \<^verbatim>\<open>phases[next_phase_idx]\<close> before the loop starts.
\<close>

lemma main_run_halts_outside_index_range:
  assumes "nextPhaseIndex st \<noteq> -1"
    and "int (length (phases st)) \<le> nextPhaseIndex st
         \<or> nextPhaseIndex st < - int (length (phases st))"
  shows "main_run budget (Returns st) rounds = Some ([GetPhaseStatus], UncaughtIndexError)"
proof -
  from assms(2) have "py_index (phases st) (nextPhaseIndex st) = None"
    by (simp add: py_index_None_iff)
  with assms(1) show ?thesis
    by (simp add: main_run_def)
qed

text \<open>
  C1 as stated fails: a report with two phases and \<^verbatim>\<open>nextPhaseIndex = -2\<close> is neither
  -1 nor a valid index, yet Python's negative indexing resolves \<^verbatim>\<open>phases[-2]\<close> to the
  first phase and the runner executes it.
\<close>

theorem main_loop_executes_negative_index:
  "(-2::int) \<noteq> -1
   \<and> \<not> (0 \<le> (-2::int) \<and> (-2::int) <
          int (length [\<lparr>description = ''Add tests'', status = ''completed''\<rparr>,
                       \<lparr>description = ''Fix bug'', status = ''pending''\<rparr>]))
   \<and> main_loop 5400
        [\<lparr>description = ''Add tests'', status = ''completed''\<rparr>,
         \<lparr>description = ''Fix bug'', status = ''pending''\<rparr>] (-2)
        [\<lparr>elapsed = 0, exec_result = Returns (Some True),
          status_result = Returns \<lparr>phases = [], nextPhaseIndex = -1\<rparr>\<rparr>]
      = Some ([ExecutePhase (-2) ''Add tests'', GetPhaseStatus], AllComplete)"
  by (simp add: py_index_def)

text \<open>
  The first end-to-end scenario of the specification: the second of two phases is run, and
  the status query that follows reports completion.
\<close>

lemma scenario_run_one_phase:
  "main_run 5400
     (Returns \<lparr>phases = [\<lparr>description = ''Add tests'', status = ''completed''\<rparr>,
                         \<lparr>description = ''Fix bug'', status = ''pending''\<rparr>],
               nextPhaseIndex = 1\<rparr>)
     [\<lparr>elapsed = 0, exec_result = Returns (Some True),
       status_result =
         Returns \<lparr>phases = [\<lparr>description = ''Add tests'', status = ''completed''\<rparr>,
                             \<lparr>description = ''Fix bug'', status = ''completed''\<rparr>],
                   nextPhaseIndex = -1\<rparr>\<rparr>]
   = Some ([GetPhaseStatus, ExecutePhase 1 ''Fix bug'', GetPhaseStatus], AllComplete)"
  by (simp add: main_run_def py_index_def)

text \<open>
  C5. When the time check passes and the phase at the index exists, an execution that raises
  or returns \<^verbatim>\<open>{success: false}\<close> ends the run at once with \<^verbatim>\<open>sys.exit(1)\<close>: the
  only external call of the iteration is that one execution, whatever answers the world
  would have given to later calls.
\<close>

theorem main_loop_failure_exits:
  assumes "idx \<noteq> -1"
    and "elapsed r < real_of_int budget"
    and "py_index phs idx = Some ph"
    and "exec_result r = Raises \<or> exec_result r = Returns (Some False)"
  shows "main_loop budget phs idx (r # rest) =
           Some ([ExecutePhase idx (description ph)], ExitFailure)
         \<and> exit_code ExitFailure \<noteq> 0"
  using assms by auto

theorem main_loop_failure_exits_witness:
  "(1::int) \<noteq> -1 \<and> (0::real) < real_of_int 5400
   \<and> py_index [\<lparr>description = ''Add tests'', status = ''completed''\<rparr>,
               \<lparr>description = ''Fix bug'', status = ''pending''\<rparr>] 1
      = Some \<lparr>description = ''Fix bug'', status = ''pending''\<rparr>
   \<and> main_loop 5400
        [\<lparr>description = ''Add tests'', status = ''completed''\<rparr>,
         \<lparr>description = ''Fix bug'', status = ''pending''\<rparr>] 1
        [\<lparr>elapsed = 0, exec_result = Returns (Some False),
          status_result = Returns \<lparr>phases = [\<lparr>description = ''Fix bug'', status = ''pending''\<rparr>],
                                   nextPhaseIndex = 0\<rparr>\<rparr>,
         \<lparr>elapsed = 1, exec_result = Returns (Some True),
          status_result = Returns \<lparr>phases = [], nextPhaseIndex = -1\<rparr>\<rparr>]
      = Some ([ExecutePhase 1 ''Fix bug''], ExitFailure)"
  using main_loop_failure_exits
    [of 1
        "\<lparr>elapsed = 0, exec_result = Returns (Some False),
          status_result = Returns \<lparr>phases = [\<lparr>description = ''Fix bug'', status = ''pending''\<rparr>],
                                   nextPhaseIndex = 0\<rparr>\<rparr>"
        5400
        "[\<lparr>description = ''Add tests'', status = ''completed''\<rparr>,
          \<lparr>description = ''Fix bug'', status = ''pending''\<rparr>]"
        "\<lparr>description = ''Fix bug'', status = ''pending''\<rparr>"
        "[\<lparr>elapsed = 1, exec_result = Returns (Some True),
           status_result = Returns \<lparr>phases = [], nextPhaseIndex = -1\<rparr>\<rparr>]"]
  by (simp add: py_index_def)

text \<open>
  C6. At the top of an iteration (the loop condition \<^verbatim>\<open>next_phase_idx != -1\<close> holds) with
  elapsed time at or beyond the budget, the loop breaks with no external call issued, and
  the run ends in the time-limit state: exit code 0, and a state other than all-complete
  and failure.
\<close>

theorem main_loop_time_limit:
  assumes "idx \<noteq> -1"
    and "real_of_int budget \<le> elapsed r"
  shows "main_loop budget phs idx (r # rest) = Some ([], TimeLimitReached)
         \<and> exit_code TimeLimitReached = 0
         \<and> TimeLimitReached \<noteq> AllComplete \<and> TimeLimitReached \<noteq> ExitFailure"
  using assms by simp

theorem main_loop_time_limit_witness:
  "(1::int) \<noteq> -1 \<and> real_of_int 5400 \<le> (5400::real)
   \<and> main_loop 5400
        [\<lparr>description = ''Add tests'', status = ''completed''\<rparr>,
         \<lparr>description = ''Fix bug'', status = ''pending''\<rparr>] 1
        [\<lparr>elapsed = 5400, exec_result = Returns (Some True),
          status_result = Returns \<lparr>phases = [], nextPhaseIndex = -1\<rparr>\<rparr>]
      = Some ([], TimeLimitReached)"
  using main_loop_time_limit
    [of 1 5400
        "\<lparr>elapsed = 5400, exec_result = Returns (Some True),
          status_result = Returns \<lparr>phases = [], nextPhaseIndex = -1\<rparr>\<rparr>"
        "[\<lparr>description = ''Add tests'', status = ''completed''\<rparr>,
          \<lparr>description = ''Fix bug'', status = ''pending''\<rparr>]"
        "[]"]
  by simp


section \<open>Every step only adds actions\<close>

lemma run_checked_extends: "prefix acts (fst (run_checked w acts a))"
  by (simp add: run_checked_def)

lemma run_checked_fst: "fst (run_checked w acts a) = acts @ [a]"
  by (simp add: run_checked_def)

lemma open_app_extends: "prefix acts (fst (open_app w acts a))"
  by (auto simp: open_app_def run_checked_def split: sum.splits json.splits prod.splits option.splits)

lemma open_resolved_extends: "prefix acts (fst (open_resolved w acts app target))"
  by (auto simp: open_resolved_def run_checked_def split: json.splits prod.splits option.splits)

lemma open_file_extends: "prefix acts (fst (open_file w acts a))"
  by (auto simp: open_file_def open_resolved_extends split: sum.splits json.splits list.splits)

lemma press_keys_extends: "prefix acts (fst (press_keys w acts k n))"
proof (induction n arbitrary: acts)
  case 0
  show ?case by simp
next
  case (Suc n)
  have "prefix (acts @ [KeyCode k False]) (fst (press_keys w (acts @ [KeyCode k False]) k n))"
    by (rule Suc.IH)
  then have "prefix acts (fst (press_keys w (acts @ [KeyCode k False]) k n))"
    by (rule append_prefixD)
  then show ?case
    by (auto simp: run_checked_def split: proc_result.splits)
qed

lemma scroll_extends: "prefix acts (fst (scroll w acts a))"
  by (auto simp: scroll_def scroll_by_def press_keys_extends run_checked_def
      split: sum.splits prod.splits option.splits)

lemma execute_extends: "prefix acts (fst (execute w acts cmd))"
  by (auto simp: execute_def caught_def open_app_extends open_file_extends scroll_extends
      split: json.splits)

lemma execute_all_extends: "prefix acts (fst (execute_all w acts cmds))"
proof (induction cmds arbitrary: acts)
  case Nil
  show ?case by simp
next
  case (Cons cmd cmds)
  obtain acts' r where e: "execute w acts cmd = (acts', r)"
    by (cases "execute w acts cmd") auto
  with execute_extends [of acts w cmd] have p: "prefix acts acts'"
    by simp
  show ?case
  proof (cases r)
    case (Inl x)
    with e p show ?thesis by simp
  next
    case (Inr b)
    with e have "fst (execute_all w acts (cmd # cmds)) = fst (execute_all w acts' cmds)"
      by simp
    with Cons.IH [of acts'] p show ?thesis
      by (auto intro: prefix_order.trans)
  qed
qed

lemma send_to_terminal_extends: "prefix acts (fst (send_to_terminal w acts t))"
  by (auto simp: send_to_terminal_def run_checked_def split: json.splits proc_result.splits)

lemma process_input_extends:
  "prefix (acts @ [ClaudeCall (context_messages (message_history (add_message (parser fw) text))) text])
     (fst (process_input w acts fw text))"
proof -
  let ?a1 = "acts @ [ClaudeCall (context_messages (message_history (add_message (parser fw) text))) text]"
  obtain r p' where p: "parse w acts (parser fw) text = (?a1, r, p')"
    by (simp add: parse_def Let_def)
  show ?thesis
  proof (cases r)
    case None
    with p show ?thesis
      using send_to_terminal_extends [of ?a1 w "JStr text"]
      by (auto simp: process_input_def split: prod.splits)
  next
    case (Some pin)
    obtain a2 e where x: "execute_all w ?a1 (commands pin) = (a2, e)"
      by (cases "execute_all w ?a1 (commands pin)") auto
    with execute_all_extends [of ?a1 w "commands pin"] have p2: "prefix ?a1 a2"
      by simp
    from send_to_terminal_extends [of a2 w "session_prompt pin"] p2
    have p3: "prefix ?a1 (fst (send_to_terminal w a2 (session_prompt pin)))"
      by (auto intro: prefix_order.trans)
    from p Some x p2 p3 show ?thesis
      by (auto simp: process_input_def split: prod.splits option.splits)
  qed
qed


section \<open>Properties of the message history\<close>

lemma add_message_context_size: "context_size (add_message p m) = context_size p"
  by (simp add: add_message_def Let_def)

lemma add_message_history_10:
  "context_size p = 10 \<Longrightarrow>
   message_history (add_message p m) =
     drop (Suc (length (message_history p)) - 10) (message_history p @ [m])"
  using py_slice_from_neg[of 10 "message_history p @ [m]"]
  by (auto simp: add_message_def Let_def)

lemma add_messages_history_10:
  "context_size p = 10 \<Longrightarrow> length (message_history p) \<le> 10 \<Longrightarrow>
   message_history (add_messages p ms) =
     drop (length (message_history p) + length ms - 10) (message_history p @ ms)"
proof (induction ms arbitrary: p)
  case Nil
  then show ?case by (simp add: add_messages_def)
next
  case (Cons m ms)
  let ?q = "add_message p m"
  have cs: "context_size ?q = 10"
    using Cons.prems(1) by (simp add: add_message_context_size)
  have h: "message_history ?q =
             drop (Suc (length (message_history p)) - 10) (message_history p @ [m])"
    using Cons.prems(1) by (rule add_message_history_10)
  have len: "length (message_history ?q) \<le> 10"
    unfolding h by auto
  have "message_history (add_messages p (m # ms)) = message_history (add_messages ?q ms)"
    by (simp add: add_messages_def)
  also have "\<dots> = drop (length (message_history ?q) + length ms - 10) (message_history ?q @ ms)"
    using Cons.IH[OF cs len] .
  also have "\<dots> = drop (length (message_history p) + length (m # ms) - 10)
                      (message_history p @ m # ms)"
    unfolding h using Cons.prems(2)
    by (cases "length (message_history p) = 10") auto
  finally show ?case .
qed

lemma default_parser_history:
  "message_history (add_messages default_parser ms) = drop (length ms - 10) ms"
  using add_messages_history_10[of default_parser ms]
  by (simp add: default_parser_def new_parser_def)

text \<open>
  C4. A parser of capacity 10 starts with an empty history. After any sequence of
  \<^verbatim>\<open>add_message\<close> calls the history has at most 10 entries and is exactly the last 10
  messages added, in the order they were added. After eleven messages the history is the
  second to the eleventh: the entry of the first message is gone.
\<close>

theorem message_history_capacity:
  "length (message_history (add_messages default_parser ms)) \<le> 10
   \<and> message_history (add_messages default_parser ms) = drop (length ms - 10) ms
   \<and> message_history
        (add_messages default_parser [m1, m2, m3, m4, m5, m6, m7, m8, m9, m10, m11])
      = [m2, m3, m4, m5, m6, m7, m8, m9, m10, m11]"
  by (simp add: default_parser_history)

theorem message_history_capacity_witness:
  "message_history
     (add_messages default_parser
        [''a'', ''b'', ''c'', ''d'', ''e'', ''f'', ''g'', ''h'', ''i'', ''j'', ''k''])
   = [''b'', ''c'', ''d'', ''e'', ''f'', ''g'', ''h'', ''i'', ''j'', ''k'']
   \<and> length (message_history
        (add_messages default_parser
           [''a'', ''b'', ''c'', ''d'', ''e'', ''f'', ''g'', ''h'', ''i'', ''j'', ''k''])) \<le> 10"
  using message_history_capacity
    [of "[''a'', ''b'', ''c'', ''d'', ''e'', ''f'', ''g'', ''h'', ''i'', ''j'', ''k'']"]
  by simp


section \<open>Properties of the parser\<close>

lemma parse_parser: "snd (snd (parse w acts p m)) = add_message p m"
  by (simp add: parse_def Let_def)

lemma parse_actions:
  "fst (parse w acts p m) =
     acts @ [ClaudeCall (context_messages (message_history (add_message p m))) m]"
  by (simp add: parse_def Let_def)

lemma process_input_parser:
  "snd (snd (process_input w acts fw text)) = fw\<lparr>parser := add_message (parser fw) text\<rparr>"
  by (auto simp: process_input_def parse_def Let_def split: prod.splits option.splits)

lemma send_to_terminal_actions:
  "fst (send_to_terminal w acts (JStr s)) \<in> {acts @ [Pbcopy s], acts @ [Pbcopy s, PasteAndReturn]}"
  by (auto simp: send_to_terminal_def run_checked_def split: proc_result.splits)

lemma process_input_unparsed:
  assumes "fst (snd (parse w acts (parser fw) text)) = None"
  shows "fst (process_input w acts fw text) =
           fst (send_to_terminal w
                  (acts @ [ClaudeCall
                             (context_messages
                                (message_history (add_message (parser fw) text))) text])
                  (JStr text))"
  using assms
  by (auto simp: process_input_def parse_def Let_def split: prod.splits option.splits)

text \<open>
  C10. Whatever the assistant answers, \<^verbatim>\<open>parse\<close> leaves the parser exactly as
  \<^verbatim>\<open>add_message\<close> of the message leaves it, and the context sent to the assistant is
  built from that updated history. The same holds for the parser of the watcher after
  \<^verbatim>\<open>process_input\<close>. With capacity 10 the message is the last entry of the trimmed
  history, so it is part of the context of the calls that follow.
\<close>

theorem parse_keeps_message:
  "snd (snd (parse w acts p m)) = add_message p m
   \<and> fst (parse w acts p m) =
       acts @ [ClaudeCall (context_messages (message_history (add_message p m))) m]
   \<and> snd (snd (process_input w acts fw m)) = fw\<lparr>parser := add_message (parser fw) m\<rparr>
   \<and> (context_size p = 10 \<longrightarrow>
        message_history (snd (snd (parse w acts p m))) =
          drop (Suc (length (message_history p)) - 10) (message_history p @ [m]))"
  by (simp add: parse_parser parse_actions process_input_parser add_message_history_10)

theorem parse_keeps_message_witness:
  "context_size default_parser = 10
   \<and> fst (snd (parse still_world [] default_parser ''first'')) = None
   \<and> message_history (snd (snd (parse still_world [] default_parser ''first''))) = [''first'']
   \<and> fst (parse still_world [] (snd (snd (parse still_world [] default_parser ''first'')))
             ''second'')
      = [ClaudeCall ''- first'' ''second'']"
  using parse_keeps_message [of still_world "[]" default_parser "''first''" new_watcher]
    parse_keeps_message [of still_world "[]" "add_message default_parser ''first''"
      "''second''" new_watcher]
  by (simp add: default_parser_def new_parser_def add_message_def py_slice_from_def
      context_messages_def parse_def still_world_def)

text \<open>
  C7 (amended). Let \<open>r\<close> be the run of the assistant for the prompt of this message. If the
  run timed out, raised, ended with a non-zero return code, printed something that is not
  JSON, printed JSON without the \<^verbatim>\<open>structured_output\<close> envelope, or returned a payload
  on which \<^verbatim>\<open>from_dict\<close> raises, then \<^verbatim>\<open>parse\<close> returns \<^verbatim>\<open>None\<close>. And whenever
  \<^verbatim>\<open>parse\<close> returns \<^verbatim>\<open>None\<close>, all that \<^verbatim>\<open>process_input\<close> does after the call of the
  assistant is the terminal relay of the raw text: the clipboard copy of the text and, when
  that succeeded, the paste; no command is executed.
\<close>

theorem parse_errors_forward_raw_text:
  assumes "claude w (context_messages (message_history (add_message (parser fw) text))) text = r"
  shows "((r = TimeoutExpired \<or> r = RunRaised
           \<or> (\<exists>returncode stdout. r = Completed returncode stdout \<and> returncode \<noteq> 0)
           \<or> r = Completed 0 None
           \<or> (\<exists>output e. r = Completed 0 (Some output) \<and> structured_output output = Inl e)
           \<or> (\<exists>output v e. r = Completed 0 (Some output) \<and> structured_output output = Inr v
                 \<and> from_dict v = Inl e))
          \<longrightarrow> fst (snd (parse w acts (parser fw) text)) = None)
       \<and> (fst (snd (parse w acts (parser fw) text)) = None
          \<longrightarrow> fst (process_input w acts fw text)
              \<in> {acts @ [ClaudeCall (context_messages
                                      (message_history (add_message (parser fw) text))) text,
                          Pbcopy text],
                  acts @ [ClaudeCall (context_messages
                                      (message_history (add_message (parser fw) text))) text,
                          Pbcopy text, PasteAndReturn]})"
proof (intro conjI impI)
  assume "r = TimeoutExpired \<or> r = RunRaised
          \<or> (\<exists>returncode stdout. r = Completed returncode stdout \<and> returncode \<noteq> 0)
          \<or> r = Completed 0 None
          \<or> (\<exists>output e. r = Completed 0 (Some output) \<and> structured_output output = Inl e)
          \<or> (\<exists>output v e. r = Completed 0 (Some output) \<and> structured_output output = Inr v
                \<and> from_dict v = Inl e)"
  with assms show "fst (snd (parse w acts (parser fw) text)) = None"
    by (auto simp: parse_def Let_def)
next
  let ?acts1 = "acts @ [ClaudeCall (context_messages
                                     (message_history (add_message (parser fw) text))) text]"
  assume "fst (snd (parse w acts (parser fw) text)) = None"
  then have "fst (process_input w acts fw text) = fst (send_to_terminal w ?acts1 (JStr text))"
    by (rule process_input_unparsed)
  with send_to_terminal_actions [of w "?acts1" "text"]
  show "fst (process_input w acts fw text)
          \<in> {acts @ [ClaudeCall (context_messages
                                  (message_history (add_message (parser fw) text))) text,
                      Pbcopy text],
              acts @ [ClaudeCall (context_messages
                                  (message_history (add_message (parser fw) text))) text,
                      Pbcopy text, PasteAndReturn]}"
    by simp
qed

theorem parse_errors_forward_raw_text_witness:
  "claude still_world
     (context_messages (message_history (add_message (parser new_watcher) ''open the blog'')))
     ''open the blog'' = TimeoutExpired
   \<and> fst (snd (parse still_world [] (parser new_watcher) ''open the blog'')) = None
   \<and> fst (process_input still_world [] new_watcher ''open the blog'')
      = [ClaudeCall ''(No prior context)'' ''open the blog'', Pbcopy ''open the blog'',
         PasteAndReturn]"
proof -
  have r: "claude still_world
             (context_messages
                (message_history (add_message (parser new_watcher) ''open the blog'')))
             ''open the blog'' = TimeoutExpired"
    by (simp add: still_world_def)
  have run: "fst (process_input still_world [] new_watcher ''open the blog'')
      = [ClaudeCall ''(No prior context)'' ''open the blog'', Pbcopy ''open the blog'',
         PasteAndReturn]"
    by code_simp
  from parse_errors_forward_raw_text [OF r, of "[]"] r run show ?thesis
    by simp
qed

text \<open>
  C7 as stated fails for a schema mismatch that raises nothing: a payload with a session
  prompt but without the required \<^verbatim>\<open>commands\<close> does not conform to PARSE_SCHEMA, yet
  \<^verbatim>\<open>from_dict\<close> fills in the default, \<^verbatim>\<open>parse\<close> returns a result, and the watcher
  relays the session prompt instead of the raw text.
\<close>

theorem parse_accepts_schema_mismatch:
  "\<not> PARSE_SCHEMA lenient_payload
   \<and> call_claude (claude lenient_world ''(No prior context)'' ''say hi'') = lenient_payload
   \<and> fst (snd (parse lenient_world [] default_parser ''say hi''))
      = Some \<lparr>session_prompt = JStr ''hi'', commands = []\<rparr>
   \<and> fst (process_input lenient_world [] new_watcher ''say hi'')
      = [ClaudeCall ''(No prior context)'' ''say hi'', Pbcopy ''hi'', PasteAndReturn]"
  by code_simp


section \<open>Properties of the file watcher\<close>

text \<open>
  C2. With \<open>old\<close> the stored last content: when \<open>new\<close> starts with \<open>old\<close> the result is
  \<open>new\<close> without its first \<open>length old\<close> characters, and otherwise it is \<open>new\<close>.
\<close>

theorem extract_new_content_delta:
  "extract_new_content fw new =
     (if prefix (last_content fw) new then drop (length (last_content fw)) new else new)"
  by (simp add: extract_new_content_def startswith_prefix py_slice_from_nonneg)

theorem extract_new_content_delta_witness:
  "extract_new_content \<lparr>last_content = ''hello'', parser = default_parser\<rparr> ''hello world''
     = '' world''
   \<and> extract_new_content \<lparr>last_content = ''hello'', parser = default_parser\<rparr> ''help''
     = ''help''"
  using extract_new_content_delta
      [of "\<lparr>last_content = ''hello'', parser = default_parser\<rparr>" "''hello world''"]
    extract_new_content_delta
      [of "\<lparr>last_content = ''hello'', parser = default_parser\<rparr>" "''help''"]
  by simp

lemma extract_new_content_appended:
  "last_content fw = old \<Longrightarrow> extract_new_content fw (old @ s) = s"
  by (simp add: extract_new_content_def startswith_prefix py_slice_from_nonneg)

text \<open>
  C3 (amended). On a round in which the file is read, its content is not empty and differs
  from the stored one, and no exception leaves \<^verbatim>\<open>process_input\<close>: the first actions are
  the read and the call of the assistant with the delta as the latest message, and
  afterwards the stored content is the full new content and the delta is in the parser's
  history. This does not depend on what the assistant answered.
\<close>

theorem watch_tick_stores_new_content:
  assumes "file_exists w"
    and "read_file w = Some content"
    and "content \<noteq> last_content fw"
    and "content \<noteq> []"
    and "watch_tick interval w fw = (acts, Inr fw')"
  shows "last_content fw' = content
         \<and> parser fw' = add_message (parser fw) (extract_new_content fw content)
         \<and> prefix
             [ReadFile,
              ClaudeCall
                (context_messages
                   (message_history
                      (add_message (parser fw) (extract_new_content fw content))))
                (extract_new_content fw content)]
             acts"
proof -
  let ?delta = "extract_new_content fw content"
  obtain acts1 e fw1 where p: "process_input w [ReadFile] fw ?delta = (acts1, e, fw1)"
    by (cases "process_input w [ReadFile] fw ?delta") auto
  from assms p have a: "acts = acts1 @ [TimeSleep interval]"
    and f: "fw' = fw1\<lparr>last_content := content\<rparr>"
    by (auto simp: watch_tick_def split: option.splits)
  from p have fw1: "fw1 = fw\<lparr>parser := add_message (parser fw) ?delta\<rparr>"
    using process_input_parser [of w "[ReadFile]" fw ?delta] by simp
  from p process_input_extends [of "[ReadFile]" fw ?delta w]
  have "prefix
          [ReadFile,
           ClaudeCall (context_messages (message_history (add_message (parser fw) ?delta)))
             ?delta]
          acts1"
    by simp
  with a have "prefix
          [ReadFile,
           ClaudeCall (context_messages (message_history (add_message (parser fw) ?delta)))
             ?delta]
          acts"
    by simp
  with f fw1 show ?thesis
    by simp
qed

theorem watch_tick_stores_new_content_witness:
  "file_exists (still_world\<lparr>read_text := Some ''hello world''\<rparr>)
   \<and> read_file (still_world\<lparr>read_text := Some ''hello world''\<rparr>) = Some ''hello world''
   \<and> ''hello world'' \<noteq> last_content \<lparr>last_content = ''hello'', parser = default_parser\<rparr>
   \<and> watch_tick 1 (still_world\<lparr>read_text := Some ''hello world''\<rparr>)
        \<lparr>last_content = ''hello'', parser = default_parser\<rparr>
      = ([ReadFile, ClaudeCall ''(No prior context)'' '' world'', Pbcopy '' world'',
          PasteAndReturn, TimeSleep 1],
         Inr \<lparr>last_content = ''hello world'',
              parser = \<lparr>context_size = 10, message_history = ['' world'']\<rparr>\<rparr>)
   \<and> last_content \<lparr>last_content = ''hello world'',
                    parser = \<lparr>context_size = 10, message_history = ['' world'']\<rparr>\<rparr>
      = ''hello world''"
proof -
  have t: "watch_tick 1 (still_world\<lparr>read_text := Some ''hello world''\<rparr>)
        \<lparr>last_content = ''hello'', parser = default_parser\<rparr>
      = ([ReadFile, ClaudeCall ''(No prior context)'' '' world'', Pbcopy '' world'',
          PasteAndReturn, TimeSleep 1],
         Inr \<lparr>last_content = ''hello world'',
              parser = \<lparr>context_size = 10, message_history = ['' world'']\<rparr>\<rparr>)"
    by code_simp
  have x: "file_exists (still_world\<lparr>read_text := Some ''hello world''\<rparr>)"
    by (simp add: still_world_def)
  have r: "read_file (still_world\<lparr>read_text := Some ''hello world''\<rparr>) = Some ''hello world''"
    by (simp add: still_world_def read_file_def)
  have d: "''hello world'' \<noteq> last_content \<lparr>last_content = ''hello'', parser = default_parser\<rparr>"
    by simp
  have n: "''hello world'' \<noteq> []"
    by simp
  from watch_tick_stores_new_content [OF x r d n t] x r d t show ?thesis
    by simp
qed

text \<open>
  C3 as stated fails for a rewrite to empty content: the content differs from the stored
  one, but the guard \<^verbatim>\<open>and content\<close> treats it as no change. Nothing is parsed and the
  stored content stays as it was.
\<close>

theorem watch_tick_ignores_empty_content:
  "read_file (still_world\<lparr>read_text := Some []\<rparr>) = Some []
   \<and> [] \<noteq> last_content \<lparr>last_content = ''hello'', parser = default_parser\<rparr>
   \<and> watch_tick 1 (still_world\<lparr>read_text := Some []\<rparr>)
        \<lparr>last_content = ''hello'', parser = default_parser\<rparr>
      = ([ReadFile, TimeSleep 1], Inr \<lparr>last_content = ''hello'', parser = default_parser\<rparr>)"
  by code_simp

text \<open>
  When the assistant's answer cannot be used and every OS command can be started, no
  exception leaves \<^verbatim>\<open>process_input\<close>.
\<close>

lemma process_input_unparsed_returns:
  assumes "fst (snd (parse w acts (parser fw) text)) = None"
    and "\<And>acts' a. run w acts' a \<noteq> SpawnFailed"
  shows "fst (snd (process_input w acts fw text)) = None"
  using assms
  by (auto simp: process_input_def parse_def Let_def send_to_terminal_def run_checked_def
      split: prod.splits option.splits proc_result.splits)

text \<open>Every round that does not meet an unreadable file ends with the sleep.\<close>

lemma watch_tick_sleeps:
  assumes "\<not> file_exists w \<or> read_file w \<noteq> None"
    and "watch_tick interval w fw = (acts, Inr fw')"
  shows "acts \<noteq> [] \<and> last acts = TimeSleep interval"
  using assms
  by (auto simp: watch_tick_def split: option.splits if_splits prod.splits)

text \<open>
  C9 at a file that exists but cannot be read in two rounds in a row: \<^verbatim>\<open>continue\<close> skips
  the sleep, and the two reads follow each other with no wait between them.
\<close>

theorem watch_unreadable_reads_without_sleep:
  "file_exists still_world \<and> read_file still_world = None
   \<and> watch 1 [still_world, still_world] new_watcher = ([ReadFile, ReadFile], Inr new_watcher)"
  by code_simp


section \<open>Properties of the command executor\<close>

lemma open_file_without_path:
  "map_of kvs ''path'' = None \<Longrightarrow> open_file w acts (JDict kvs) = (acts, Inr False)"
  by (simp add: open_file_def)

lemma open_file_no_match:
  assumes "map_of kvs ''path'' = Some (JStr s)" and "s \<noteq> []" and "CHR ''*'' \<in> set s"
    and "expanduser w (Path s) = Inr p" and "name p \<noteq> []"
    and "glob w (parent p) (name p) = []"
  shows "open_file w acts (JDict kvs) = (acts, Inr False)"
  using assms by (simp add: open_file_def)

lemma open_file_first_match:
  assumes "map_of kvs ''path'' = Some (JStr s)" and "s \<noteq> []" and "CHR ''*'' \<in> set s"
    and "expanduser w (Path s) = Inr p" and "name p \<noteq> []"
    and "glob w (parent p) (name p) = m # ms"
  shows "open_file w acts (JDict kvs) =
           (if path_exists w m
            then open_resolved w acts (case map_of kvs ''app'' of None \<Rightarrow> JNull | Some v \<Rightarrow> v) m
            else (acts, Inr False))"
  using assms by (simp add: open_file_def)

lemma open_file_not_found:
  assumes "map_of kvs ''path'' = Some (JStr s)" and "s \<noteq> []" and "CHR ''*'' \<notin> set s"
    and "expanduser w (Path s) = Inr p" and "\<not> path_exists w p"
  shows "open_file w acts (JDict kvs) = (acts, Inr False)"
  using assms by (simp add: open_file_def)

text \<open>
  The third and fourth scenario of the specification: a scroll to the bottom is one key
  event with the command key and no terminal relay; a file that does not exist makes the
  command fail, and the commands after it still run.
\<close>

lemma scenario_scroll_bottom:
  "process_input
     (still_world\<lparr>claude := (\<lambda>ctx msg. Completed 0 (Some (JList [JDict
        [(''structured_output'',
          JDict [(''sessionPrompt'', JNull),
                 (''commands'', JList [JDict [(''type'', JStr ''scroll''),
                    (''args'', JDict [(''direction'', JStr ''bottom'')])]])])]])))\<rparr>)
     [] new_watcher ''go to the end''
   = ([ClaudeCall ''(No prior context)'' ''go to the end'', KeyCode ''125'' True], None,
      new_watcher\<lparr>parser := add_message default_parser ''go to the end''\<rparr>)"
  by code_simp

lemma scenario_open_missing_file:
  "execute still_world []
     \<lparr>type = JStr ''openFile'', args = JDict [(''path'', JStr ''/no/such/file'')]\<rparr>
   = ([], Inr False)
   \<and> execute_all still_world []
       [\<lparr>type = JStr ''openFile'', args = JDict [(''path'', JStr ''/no/such/file'')]\<rparr>,
        \<lparr>type = JStr ''openApp'', args = JDict [(''app'', JStr ''Typora'')]\<rparr>]
     = ([OpenApp ''Typora''], None)"
  by code_simp

lemma open_file_wildcard_in_name:
  "open_file demo_world []
     (JDict [(''path'', JStr ''~/Desktop/doc-drafts/post/*.md''), (''app'', JStr ''Typora'')])
   = ([OpenPath (Some ''Typora'') ''/Users/me/Desktop/doc-drafts/post/blog.md''], Inr True)"
  by code_simp

text \<open>
  C8 at the path of the example in PARSE_PROMPT, with the draft present: the star stands in
  a directory component, the path read component by component has a match that exists, and
  \<^verbatim>\<open>_open_file\<close> looks for \<^verbatim>\<open>blog.md\<close> in a directory literally named \<^verbatim>\<open>*\<close>, finds
  nothing and returns \<^verbatim>\<open>False\<close> without opening anything.
\<close>

theorem open_file_wildcard_in_directory:
  "open_file demo_world []
     (JDict [(''path'', JStr ''~/Desktop/doc-drafts/*/blog.md''), (''app'', JStr ''Typora'')])
   = ([], Inr False)
   \<and> expanduser demo_world (Path ''~/Desktop/doc-drafts/*/blog.md'')
      = Inr \<lparr>absolute = True,
             parts = [''Users'', ''me'', ''Desktop'', ''doc-drafts'', ''*'', ''blog.md'']\<rparr>
   \<and> spec_glob_anywhere demo_files
        \<lparr>absolute = True,
         parts = [''Users'', ''me'', ''Desktop'', ''doc-drafts'', ''*'', ''blog.md'']\<rparr>
      = [\<lparr>absolute = True,
          parts = [''Users'', ''me'', ''Desktop'', ''doc-drafts'', ''post'', ''blog.md'']\<rparr>]
   \<and> path_exists demo_world
        \<lparr>absolute = True,
         parts = [''Users'', ''me'', ''Desktop'', ''doc-drafts'', ''post'', ''blog.md'']\<rparr>"
  by code_simp

end
